theory Spec2Isabelle
  imports Complex_Main
begin

section \<open>The equalizer of \<open>audio_equalizer.py\<close>\<close>

text \<open>
  A shallow embedding of class \<open>AudioEqualizer\<close>. Samples, gains and coefficients are
  Python and numpy floats in the source; here they are real numbers, so rounding is outside
  the model. What the floats do that no real number does is kept as an outcome of the call:
  the power \<open>10 ** (gain_db / 20)\<close> raises \<open>OverflowError\<close> when it exceeds the largest
  double and is \<open>0.0\<close> when it underflows, a Python float division by zero raises, and a
  numpy division by zero gives an infinity or a NaN, at which the model stops with the outcome
  \<open>NonFinite\<close> instead of going on with HOL's \<open>x / 0 = 0\<close>.
\<close>

subsection \<open>Outcomes of a call\<close>

datatype error =
    ZeroDivisionError  \<comment> \<open>Python float division by zero (raised)\<close>
  | KeyError           \<comment> \<open>subscript of a dict with a missing key (raised)\<close>
  | OverflowError      \<comment> \<open>Python float power out of range (raised)\<close>
  | NonFinite nat      \<comment> \<open>numpy division by zero at this source line: inf or nan, RuntimeWarning\<close>

subsection \<open>The object state\<close>

record equalizer =
  sample_rate :: real
  block_size :: nat
  is_running :: bool
  bands :: "(string \<times> real) list"  \<comment> \<open>a dict in insertion order: label, centre frequency in Hz\<close>
  gains :: "string \<rightharpoonup> real"        \<comment> \<open>gain in dB of each label\<close>
  q_factor :: real

definition band_table :: "(string \<times> real) list" where
  "band_table =
     [(''60 Hz'', 60), (''170 Hz'', 170), (''310 Hz'', 310), (''600 Hz'', 600),
      (''1 kHz'', 1000), (''3 kHz'', 3000), (''6 kHz'', 6000), (''12 kHz'', 12000),
      (''14 kHz'', 14000), (''16 kHz'', 16000)]"

text \<open>\<open>__init__\<close>: the gains are built from the band labels, all \<open>0.0\<close>.\<close>

definition AudioEqualizer_init :: equalizer where
  "AudioEqualizer_init =
     \<lparr> sample_rate = 44100, block_size = 2048, is_running = False,
       bands = band_table,
       gains = map_of (map (\<lambda>band. (fst band, 0)) band_table),
       q_factor = 1 \<rparr>"

subsection \<open>\<open>create_peak_filter\<close>\<close>

type_synonym coeffs = "real \<times> real \<times> real"

text \<open>
  Line 35, \<open>gain = 10 ** (gain_db / 20)\<close>, is a power of Python floats. A result above the
  largest double raises \<open>OverflowError\<close>; a result below half the least positive double is
  \<open>0.0\<close>, without any error. Rounding is not modelled, so the gains at which the rounded power
  first overflows or vanishes are within a rounding error of these two bounds.
\<close>

definition float_max :: real where
  "float_max = (2 - 1 / 2 ^ 52) * 2 ^ 1023"

definition float_tiny :: real where
  "float_tiny = 1 / 2 ^ 1075"

definition linear_gain :: "real \<Rightarrow> error + real" where
  "linear_gain gain_db =
     (let p = 10 powr (gain_db / 20)
      in if float_max < p then Inl OverflowError
         else if p < float_tiny then Inr 0
         else Inr p)"

text \<open>The intermediate values of \<open>create_peak_filter\<close>; \<open>A\<close> is the linear gain.\<close>

definition omega0 :: "equalizer \<Rightarrow> real \<Rightarrow> real" where
  "omega0 s center_freq = 2 * pi * center_freq / sample_rate s"

definition peak_alpha :: "equalizer \<Rightarrow> real \<Rightarrow> real \<Rightarrow> real" where
  "peak_alpha s center_freq q = sin (omega0 s center_freq) / (2 * q)"

definition peak_a0 :: "equalizer \<Rightarrow> real \<Rightarrow> real \<Rightarrow> real \<Rightarrow> real" where
  "peak_a0 s center_freq A q = 1 + peak_alpha s center_freq q / A"

text \<open>
  The statements in source order. Line 35 may raise \<open>OverflowError\<close>. Line 37,
  \<open>2 * np.pi * center_freq / self.sample_rate\<close>, divides Python floats and raises on a zero
  sample rate. The later divisions have a numpy scalar on the left and give inf or nan on a
  zero divisor: line 38 divides by \<open>2 * q_factor\<close>, line 46 (and again line 48) by \<open>A\<close>,
  which is zero when the power underflowed, and lines 51 and 52 by \<open>a0\<close>. The function
  returns the pair \<open>(b, a)\<close> with \<open>a[0] = 1\<close>.
\<close>

definition create_peak_filter ::
  "equalizer \<Rightarrow> real \<Rightarrow> real \<Rightarrow> real \<Rightarrow> error + (coeffs \<times> coeffs)" where
  "create_peak_filter s center_freq gain_db q =
     (case linear_gain gain_db of
        Inl e \<Rightarrow> Inl e
      | Inr gain \<Rightarrow>
          if sample_rate s = 0 then Inl ZeroDivisionError
          else if 2 * q = 0 then Inl (NonFinite 38)
          else
            let w0 = omega0 s center_freq;
                alpha = peak_alpha s center_freq q;
                A = gain
            in if A = 0 then Inl (NonFinite 46)
               else
                 let b0 = 1 + alpha * A;
                     b1 = - 2 * cos w0;
                     b2 = 1 - alpha * A;
                     a0 = peak_a0 s center_freq A q;
                     a1 = - 2 * cos w0;
                     a2 = 1 - alpha / A
                 in if a0 = 0 then Inl (NonFinite 51)
                    else Inr ((b0 / a0, b1 / a0, b2 / a0), (1, a1 / a0, a2 / a0)))"

subsection \<open>\<open>scipy.signal.lfilter\<close> and \<open>np.clip\<close>\<close>

text \<open>
  \<open>lfilter(b, a, x)\<close> of scipy, for three coefficients each and no \<open>zi\<close> argument: the
  direct form II transposed recurrence, started from a zero delay line on every call, after
  dividing all coefficients by \<open>a[0]\<close>.
\<close>

fun lfilter_run :: "coeffs \<Rightarrow> coeffs \<Rightarrow> real \<times> real \<Rightarrow> real list \<Rightarrow> real list" where
  "lfilter_run b a z [] = []"
| "lfilter_run (b0, b1, b2) (a0, a1, a2) (z0, z1) (x # xs) =
     (let y = b0 * x + z0
      in y # lfilter_run (b0, b1, b2) (a0, a1, a2) (b1 * x - a1 * y + z1, b2 * x - a2 * y) xs)"

definition lfilter :: "coeffs \<Rightarrow> coeffs \<Rightarrow> real list \<Rightarrow> real list" where
  "lfilter b a xs =
     (case (b, a) of ((b0, b1, b2), (a0, a1, a2)) \<Rightarrow>
        lfilter_run (b0 / a0, b1 / a0, b2 / a0) (1, a1 / a0, a2 / a0) (0, 0) xs)"

definition clip :: "real \<Rightarrow> real \<Rightarrow> real \<Rightarrow> real" where
  "clip x lo hi = min (max x lo) hi"

subsection \<open>Audio blocks\<close>

text \<open>
  A block is a numpy array: one-dimensional (mono, \<open>frames\<close> samples) or two-dimensional of
  shape \<open>(frames, channels)\<close>, kept as its list of rows together with the channel count
  (which a block of no frames still has).
\<close>

datatype audio = Mono "real list" | Multi nat "real list list"

fun shape :: "audio \<Rightarrow> nat list" where
  "shape (Mono xs) = [length xs]"
| "shape (Multi c rows) = [length rows, c]"

fun rectangular :: "audio \<Rightarrow> bool" where
  "rectangular (Mono xs) = True"
| "rectangular (Multi c rows) = list_all (\<lambda>r. length r = c) rows"


text \<open>
  \<open>output[:, ch]\<close> read and assigned. The vector assigned is the filtered column, which has
  one value for each row, so the assignment never fails on a length mismatch.
\<close>

definition column :: "nat \<Rightarrow> real list list \<Rightarrow> real list" where
  "column ch rows = map (\<lambda>r. r ! ch) rows"

definition set_column :: "nat \<Rightarrow> real list \<Rightarrow> real list list \<Rightarrow> real list list" where
  "set_column ch ys rows = map (\<lambda>(r, y). r[ch := y]) (zip rows ys)"

definition filter_channel :: "coeffs \<Rightarrow> coeffs \<Rightarrow> nat \<Rightarrow> real list list \<Rightarrow> real list list" where
  "filter_channel b a ch rows = set_column ch (lfilter b a (column ch rows)) rows"

fun filter_audio :: "coeffs \<Rightarrow> coeffs \<Rightarrow> audio \<Rightarrow> audio" where
  "filter_audio b a (Mono xs) = Mono (lfilter b a xs)"
| "filter_audio b a (Multi c rows) = Multi c (fold (filter_channel b a) [0..<c] rows)"

fun clip_audio :: "audio \<Rightarrow> audio" where
  "clip_audio (Mono xs) = Mono (map (\<lambda>x. clip x (-1) 1) xs)"
| "clip_audio (Multi c rows) = Multi c (map (map (\<lambda>x. clip x (-1) 1)) rows)"

subsection \<open>\<open>apply_equalizer\<close> and \<open>set_gain\<close>\<close>

text \<open>One turn of the loop over \<open>self.bands.items()\<close>.\<close>

definition apply_band :: "equalizer \<Rightarrow> string \<times> real \<Rightarrow> audio \<Rightarrow> error + audio" where
  "apply_band s band output =
     (case gains s (fst band) of
        None \<Rightarrow> Inl KeyError
      | Some gain_db \<Rightarrow>
          if \<bar>gain_db\<bar> > 1 / 10 then
            (case create_peak_filter s (snd band) gain_db (q_factor s) of
               Inl e \<Rightarrow> Inl e
             | Inr (b, a) \<Rightarrow> Inr (filter_audio b a output))
          else Inr output)"

fun apply_bands :: "equalizer \<Rightarrow> (string \<times> real) list \<Rightarrow> audio \<Rightarrow> error + audio" where
  "apply_bands s [] output = Inr output"
| "apply_bands s (band # rest) output =
     (case apply_band s band output of
        Inl e \<Rightarrow> Inl e
      | Inr output' \<Rightarrow> apply_bands s rest output')"

text \<open>
  The value \<open>apply_equalizer\<close> returns. The copy taken first has the value of the argument;
  the store in which the copy and the argument are different arrays is modelled further down.
\<close>

definition apply_equalizer :: "equalizer \<Rightarrow> audio \<Rightarrow> error + audio" where
  "apply_equalizer s audio_data =
     (case apply_bands s (bands s) audio_data of
        Inl e \<Rightarrow> Inl e
      | Inr output \<Rightarrow> Inr (clip_audio output))"

text \<open>\<open>set_gain\<close> has one guarded assignment and no \<open>raise\<close>; it returns \<open>None\<close>.\<close>

definition set_gain :: "equalizer \<Rightarrow> string \<Rightarrow> real \<Rightarrow> error + equalizer" where
  "set_gain s band_name gain_db =
     (if band_name \<in> dom (gains s)
      then Inr (s\<lparr>gains := (gains s)(band_name \<mapsto> gain_db)\<rparr>)
      else Inr s)"

text \<open>A sequence of \<open>set_gain\<close> calls, as the host makes them.\<close>

fun set_gains :: "equalizer \<Rightarrow> (string \<times> real) list \<Rightarrow> error + equalizer" where
  "set_gains s [] = Inr s"
| "set_gains s (setting # rest) =
     (case set_gain s (fst setting) (snd setting) of
        Inl e \<Rightarrow> Inl e
      | Inr s' \<Rightarrow> set_gains s' rest)"

subsection \<open>A signal fed in blocks\<close>

text \<open>
  The host hands \<open>apply_equalizer\<close> one block after the other (\<open>audio_callback\<close>).
  \<open>apply_equalizer\<close> assigns nothing to \<open>self\<close>, so every call sees the same object state.
  Cutting a signal into its first \<open>n\<close> frames and the rest is numpy's \<open>x[:n]\<close> and
  \<open>x[n:]\<close>.
\<close>

fun process_blocks :: "equalizer \<Rightarrow> audio list \<Rightarrow> error + audio list" where
  "process_blocks s [] = Inr []"
| "process_blocks s (block # rest) =
     (case apply_equalizer s block of
        Inl e \<Rightarrow> Inl e
      | Inr out \<Rightarrow>
          (case process_blocks s rest of
             Inl e \<Rightarrow> Inl e
           | Inr outs \<Rightarrow> Inr (out # outs)))"

fun take_frames :: "nat \<Rightarrow> audio \<Rightarrow> audio" where
  "take_frames n (Mono xs) = Mono (take n xs)"
| "take_frames n (Multi c rows) = Multi c (take n rows)"

fun drop_frames :: "nat \<Rightarrow> audio \<Rightarrow> audio" where
  "drop_frames n (Mono xs) = Mono (drop n xs)"
| "drop_frames n (Multi c rows) = Multi c (drop n rows)"

text \<open>A block with \<open>k\<close> frames of silence put before it.\<close>

fun silent_frames :: "nat \<Rightarrow> audio \<Rightarrow> audio" where
  "silent_frames k (Mono xs) = Mono (replicate k 0 @ xs)"
| "silent_frames k (Multi c rows) = Multi c (replicate k (replicate c 0) @ rows)"

subsection \<open>\<open>apply_equalizer\<close> on a store of arrays\<close>

text \<open>
  Arrays are objects: \<open>apply_equalizer\<close> gets a reference to the caller's array. The store
  is the list of all arrays, a reference is an index into it. \<open>audio_data.copy()\<close>,
  \<open>signal.lfilter\<close> and \<open>np.clip\<close> each return a new array; \<open>output[:, ch] = ...\<close> writes into
  the array \<open>output\<close> refers to. In the mono branch the variable \<open>output\<close> is bound to the
  new array, in the other branch it keeps its reference.
\<close>

type_synonym store = "audio list"

definition alloc :: "store \<Rightarrow> audio \<Rightarrow> store \<times> nat" where
  "alloc h v = (h @ [v], length h)"

definition store_filter_channel :: "coeffs \<Rightarrow> coeffs \<Rightarrow> nat \<Rightarrow> nat \<Rightarrow> store \<Rightarrow> store" where
  "store_filter_channel b a output ch h =
     (case h ! output of
        Mono xs \<Rightarrow> h
      | Multi c rows \<Rightarrow> h[output := Multi c (filter_channel b a ch rows)])"

definition filter_store :: "coeffs \<Rightarrow> coeffs \<Rightarrow> store \<times> nat \<Rightarrow> store \<times> nat" where
  "filter_store b a st =
     (case st of (h, output) \<Rightarrow>
        (case h ! output of
           Mono xs \<Rightarrow> alloc h (Mono (lfilter b a xs))
         | Multi c rows \<Rightarrow> (fold (store_filter_channel b a output) [0..<c] h, output)))"

definition apply_band_store ::
  "equalizer \<Rightarrow> string \<times> real \<Rightarrow> store \<times> nat \<Rightarrow> error + store \<times> nat" where
  "apply_band_store s band st =
     (case gains s (fst band) of
        None \<Rightarrow> Inl KeyError
      | Some gain_db \<Rightarrow>
          if \<bar>gain_db\<bar> > 1 / 10 then
            (case create_peak_filter s (snd band) gain_db (q_factor s) of
               Inl e \<Rightarrow> Inl e
             | Inr (b, a) \<Rightarrow> Inr (filter_store b a st))
          else Inr st)"

fun apply_bands_store ::
  "equalizer \<Rightarrow> (string \<times> real) list \<Rightarrow> store \<times> nat \<Rightarrow> error + store \<times> nat" where
  "apply_bands_store s [] st = Inr st"
| "apply_bands_store s (band # rest) st =
     (case apply_band_store s band st of
        Inl e \<Rightarrow> Inl e
      | Inr st' \<Rightarrow> apply_bands_store s rest st')"

text \<open>The call with the store \<open>h\<close> and the reference \<open>audio_data\<close>: the new store and the reference returned.\<close>

definition apply_equalizer_store :: "equalizer \<Rightarrow> store \<Rightarrow> nat \<Rightarrow> error + store \<times> nat" where
  "apply_equalizer_store s h audio_data =
     (case apply_bands_store s (bands s) (alloc h (h ! audio_data)) of
        Inl e \<Rightarrow> Inl e
      | Inr (h', output) \<Rightarrow> Inr (alloc h' (clip_audio (h' ! output))))"

text \<open>A reference to an array made after the store had \<open>n\<close> arrays.\<close>

definition fresh_at :: "nat \<Rightarrow> store \<times> nat \<Rightarrow> bool" where
  "fresh_at n st = (n \<le> snd st \<and> snd st < length (fst st))"

text \<open>
  The gains the theorems about \<open>apply_equalizer\<close> are stated for: every gain handed to
  \<open>set_gain\<close> is at most 6000 dB in absolute value, so that its linear gain is a double
  between \<open>1e-300\<close> and \<open>1e300\<close>. The sliders of the program set gains from -12 to 12 dB.
\<close>

definition moderate_gains :: "(string \<times> real) list \<Rightarrow> bool" where
  "moderate_gains settings = list_all (\<lambda>setting. \<bar>snd setting\<bar> \<le> 6000) settings"

section \<open>The linear gain\<close>

lemma pow_300: "(10::real) ^ 300 \<le> 2 ^ 1000"
proof -
  have "((10::real) ^ 3) ^ 100 \<le> (2 ^ 10) ^ 100" by (intro power_mono) simp_all
  then show ?thesis by (simp only: power_mult [symmetric]) simp
qed

lemma float_max_ge: "(2::real) ^ 1000 \<le> float_max"
proof -
  have "(2::real) ^ 1000 \<le> 2 ^ 1023" by (intro power_increasing) simp_all
  moreover have "(1::real) \<le> 2 - 1 / 2 ^ 52" by simp
  then have "1 * (2::real) ^ 1023 \<le> (2 - 1 / 2 ^ 52) * 2 ^ 1023"
    by (intro mult_right_mono) simp_all
  ultimately show ?thesis by (simp add: float_max_def)
qed

lemma float_max_less: "float_max < 10 ^ 350"
proof -
  have "float_max \<le> 2 * 2 ^ 1023" unfolding float_max_def by (intro mult_right_mono) simp_all
  also have "\<dots> = (2::real) ^ 1024" by simp
  also have "\<dots> \<le> 2 ^ 1050" by (intro power_increasing) simp_all
  also have "\<dots> = ((2::real) ^ 3) ^ 350" by (simp only: power_mult [symmetric]) simp
  also have "\<dots> < (10 ^ 1) ^ 350" by (intro power_strict_mono) simp_all
  finally show ?thesis by simp
qed


lemma powr_moderate:
  assumes "\<bar>g\<bar> \<le> 6000"
  shows "float_tiny \<le> 10 powr (g / 20)" "10 powr (g / 20) \<le> float_max"
proof -
  have "10 powr (g / 20) \<le> (10::real) powr 300" using assms by (intro powr_mono) simp_all
  also have "\<dots> = 10 ^ 300" by simp
  finally show "10 powr (g / 20) \<le> float_max" using pow_300 float_max_ge by linarith
  have "float_tiny \<le> 1 / 2 ^ 1000" unfolding float_tiny_def
    by (intro divide_left_mono power_increasing) simp_all
  also have "\<dots> \<le> 1 / 10 ^ 300" using pow_300 by (intro divide_left_mono) simp_all
  also have "\<dots> = (10::real) powr (- 300)" by (simp add: powr_minus_divide)
  also have "\<dots> \<le> 10 powr (g / 20)" using assms by (intro powr_mono) simp_all
  finally show "float_tiny \<le> 10 powr (g / 20)" .
qed

text \<open>Up to 6000 dB in absolute value the power is an ordinary positive number.\<close>

lemma linear_gain_moderate:
  assumes "\<bar>g\<bar> \<le> 6000"
  shows "linear_gain g = Inr (10 powr (g / 20))"
  using powr_moderate [OF assms] by (simp add: linear_gain_def Let_def)


lemma linear_gain_20: "linear_gain 20 = Inr 10"
  using linear_gain_moderate [of 20] by simp

text \<open>At 7000 dB it overflows, at -7000 dB it is zero.\<close>

lemma linear_gain_overflow: "linear_gain 7000 = Inl OverflowError"
proof -
  have "float_max < 10 powr (7000 / 20)" using float_max_less by simp
  then show ?thesis by (simp add: linear_gain_def Let_def)
qed


text \<open>A linear gain that is not zero is the power itself, and positive.\<close>

lemma linear_gain_value:
  assumes "linear_gain g = Inr A" "A \<noteq> 0"
  shows "A = 10 powr (g / 20)" "0 < A"
proof -
  show "A = 10 powr (g / 20)"
    using assms by (auto simp: linear_gain_def Let_def split: if_splits)
  then show "0 < A" by simp
qed

section \<open>Coefficient synthesis\<close>

lemma omega0_range:
  assumes "0 < sample_rate s" "0 < f" "f < sample_rate s / 2"
  shows "0 < omega0 s f \<and> omega0 s f < pi"
proof -
  have "omega0 s f = pi * (2 * f / sample_rate s)" by (simp add: omega0_def)
  moreover have "0 < 2 * f / sample_rate s" using assms by simp
  moreover have "2 * f / sample_rate s < 1" using assms by (simp add: field_simps)
  ultimately show ?thesis
    using pi_gt_zero by (metis mult.right_neutral mult_pos_pos mult_strict_left_mono)
qed

lemma peak_alpha_pos:
  assumes "0 < sample_rate s" "0 < f" "f < sample_rate s / 2" "0 < q"
  shows "0 < peak_alpha s f q"
  using omega0_range [OF assms(1-3)] assms(4) by (simp add: peak_alpha_def sin_gt_zero)

lemma peak_a0_pos:
  assumes "0 < sample_rate s" "0 < f" "f < sample_rate s / 2" "0 < q" "0 < A"
  shows "0 < peak_a0 s f A q"
proof -
  have al: "0 < peak_alpha s f q" by (rule peak_alpha_pos [OF assms(1-4)])
  have "0 < peak_alpha s f q / A" using al assms(5) by simp
  then show ?thesis by (simp add: peak_a0_def)
qed

text \<open>What \<open>create_peak_filter\<close> returns when no division fails.\<close>

lemma create_peak_filter_value:
  assumes "sample_rate s \<noteq> 0" "q \<noteq> 0" "linear_gain g = Inr A" "A \<noteq> 0"
    "peak_a0 s f A q \<noteq> 0"
  shows "create_peak_filter s f g q =
     Inr (((1 + peak_alpha s f q * A) / peak_a0 s f A q,
           - 2 * cos (omega0 s f) / peak_a0 s f A q,
           (1 - peak_alpha s f q * A) / peak_a0 s f A q),
          (1,
           - 2 * cos (omega0 s f) / peak_a0 s f A q,
           (1 - peak_alpha s f q / A) / peak_a0 s f A q))"
  using assms by (simp add: create_peak_filter_def Let_def)

lemma create_peak_filter_returns:
  assumes "0 < sample_rate s" "0 < f" "f < sample_rate s / 2" "0 < q"
    and "linear_gain g = Inr A" "A \<noteq> 0"
  shows "\<exists>b a. create_peak_filter s f g q = Inr (b, a)"
proof -
  have "0 < A" by (rule linear_gain_value(2) [OF assms(5,6)])
  from peak_a0_pos [OF assms(1-4) this] have "peak_a0 s f A q \<noteq> 0" by simp
  from create_peak_filter_value [OF _ _ assms(5,6) this] assms(1,4) show ?thesis by simp
qed

lemma create_peak_filter_moderate:
  assumes "0 < sample_rate s" "0 < f" "f < sample_rate s / 2" "0 < q" "\<bar>g\<bar> \<le> 6000"
  shows "\<exists>b a. create_peak_filter s f g q = Inr (b, a)"
proof -
  have "linear_gain g = Inr (10 powr (g / 20))" "10 powr (g / 20) \<noteq> (0::real)"
    using linear_gain_moderate [OF assms(5)] by simp_all
  from create_peak_filter_returns [OF assms(1-4) this] show ?thesis .
qed

text \<open>The normalisation is the only place that divides by \<open>a0\<close>.\<close>

lemma create_peak_filter_no_51:
  assumes "0 < sample_rate s" "0 < f" "f < sample_rate s / 2" "0 < q"
  shows "create_peak_filter s f g q \<noteq> Inl (NonFinite 51)"
proof (cases "linear_gain g")
  case (Inl e)
  then have "e = OverflowError" by (auto simp: linear_gain_def Let_def split: if_splits)
  with Inl show ?thesis by (simp add: create_peak_filter_def)
next
  case (Inr A)
  show ?thesis
  proof (cases "A = 0")
    case True
    with Inr assms(1,4) show ?thesis by (simp add: create_peak_filter_def Let_def)
  next
    case False
    from create_peak_filter_returns [OF assms Inr False] show ?thesis by auto
  qed
qed

lemma init_fields:
  "sample_rate AudioEqualizer_init = 44100" "q_factor AudioEqualizer_init = 1"
  "bands AudioEqualizer_init = band_table"
  by (simp_all add: AudioEqualizer_init_def)

text \<open>
  Claim C8. For a positive sample rate, a centre frequency strictly between 0 and half the
  sample rate, a positive Q and any gain in dB: \<open>create_peak_filter\<close> never divides by a zero
  \<open>a0\<close> in the normalisation of lines 51 and 52, and whenever the linear gain \<open>A\<close> is a nonzero
  number, the unnormalised coefficient \<open>a0 = 1 + alpha / A\<close> is strictly positive and the
  coefficients are returned. (When the power overflows the call raises before \<open>a0\<close> is formed;
  when it underflows to zero, \<open>alpha / A\<close> is an infinity and so is \<open>a0\<close>.)
\<close>

theorem a0_positive:
  assumes "0 < sample_rate s" "0 < f" "f < sample_rate s / 2" "0 < q"
  shows "create_peak_filter s f g q \<noteq> Inl (NonFinite 51)
     \<and> (\<forall>A. linear_gain g = Inr A \<and> A \<noteq> 0 \<longrightarrow>
            0 < peak_a0 s f A q \<and> (\<exists>b a. create_peak_filter s f g q = Inr (b, a)))"
proof -
  have "0 < peak_a0 s f A q \<and> (\<exists>b a. create_peak_filter s f g q = Inr (b, a))"
    if "linear_gain g = Inr A" "A \<noteq> 0" for A
    using peak_a0_pos [OF assms linear_gain_value(2) [OF that]]
      create_peak_filter_returns [OF assms that] by simp
  with create_peak_filter_no_51 [OF assms] show ?thesis by blast
qed

theorem a0_positive_witness:
  "0 < sample_rate AudioEqualizer_init \<and> (0::real) < 1000
   \<and> 1000 < sample_rate AudioEqualizer_init / 2 \<and> (0::real) < 1
   \<and> linear_gain 6 = Inr (10 powr (6 / 20)) \<and> (10::real) powr (6 / 20) \<noteq> 0
   \<and> create_peak_filter AudioEqualizer_init 1000 6 1 \<noteq> Inl (NonFinite 51)
   \<and> 0 < peak_a0 AudioEqualizer_init 1000 (10 powr (6 / 20)) 1
   \<and> (\<exists>b a. create_peak_filter AudioEqualizer_init 1000 6 1 = Inr (b, a))"
proof -
  have g: "linear_gain 6 = Inr (10 powr (6 / 20))" using linear_gain_moderate [of 6] by simp
  have c: "0 < sample_rate AudioEqualizer_init" "(0::real) < 1000"
    "1000 < sample_rate AudioEqualizer_init / 2" "(0::real) < 1"
    by (simp_all add: init_fields)
  from a0_positive [OF c, of 6] g c show ?thesis by simp
qed
section \<open>\<open>set_gain\<close> and the states the host can reach\<close>

lemma set_gain_fields:
  assumes "set_gain s n g = Inr s'"
  shows "sample_rate s' = sample_rate s" "q_factor s' = q_factor s" "bands s' = bands s"
    "dom (gains s') = dom (gains s)"
  using assms by (auto simp: set_gain_def split: if_splits)

lemma set_gain_total: "\<exists>s'. set_gain s n g = Inr s'"
  by (simp add: set_gain_def)

lemma set_gains_fields:
  "set_gains s gs = Inr s' \<Longrightarrow>
     sample_rate s' = sample_rate s \<and> q_factor s' = q_factor s \<and> bands s' = bands s
     \<and> dom (gains s') = dom (gains s)"
proof (induction gs arbitrary: s)
  case Nil
  then show ?case by simp
next
  case (Cons x gs)
  obtain s1 where s1: "set_gain s (fst x) (snd x) = Inr s1"
    using set_gain_total by blast
  with Cons.prems have "set_gains s1 gs = Inr s'" by simp
  from Cons.IH [OF this] set_gain_fields [OF s1] show ?case by simp
qed

lemma set_gains_total: "\<exists>s'. set_gains s gs = Inr s'"
proof (induction gs arbitrary: s)
  case Nil
  then show ?case by simp
next
  case (Cons x gs)
  obtain s1 where s1: "set_gain s (fst x) (snd x) = Inr s1"
    using set_gain_total by blast
  then show ?case using Cons.IH [of s1] by simp
qed

lemma init_dom: "dom (gains AudioEqualizer_init) = fst ` set band_table"
  by (simp add: AudioEqualizer_init_def dom_map_of_conv_image_fst image_image)

lemma reachable_fields:
  assumes "set_gains AudioEqualizer_init gs = Inr s"
  shows "sample_rate s = 44100" "q_factor s = 1" "bands s = band_table"
    "dom (gains s) = fst ` set band_table"
  using set_gains_fields [OF assms] init_dom by (simp_all add: init_fields)

text \<open>Gains of at most 6000 dB in absolute value stay so in the table.\<close>

lemma init_gains_zero: "gains AudioEqualizer_init n = Some g \<Longrightarrow> g = 0"
  by (auto simp: AudioEqualizer_init_def dest!: map_of_SomeD)

lemma set_gains_moderate:
  "set_gains s gs = Inr s' \<Longrightarrow> moderate_gains gs \<Longrightarrow>
     (\<And>n g. gains s n = Some g \<Longrightarrow> \<bar>g\<bar> \<le> 6000) \<Longrightarrow>
     gains s' n = Some g \<Longrightarrow> \<bar>g\<bar> \<le> 6000"
proof (induction gs arbitrary: s)
  case Nil
  then show ?case by simp
next
  case (Cons x gs)
  obtain s1 where s1: "set_gain s (fst x) (snd x) = Inr s1"
    using set_gain_total by blast
  with Cons.prems(1) have run: "set_gains s1 gs = Inr s'" by simp
  have x: "\<bar>snd x\<bar> \<le> 6000" and rest: "moderate_gains gs"
    using Cons.prems(2) by (simp_all add: moderate_gains_def)
  have "\<bar>g'\<bar> \<le> 6000" if "gains s1 n' = Some g'" for n' g'
    using s1 that x Cons.prems(3) by (auto simp: set_gain_def split: if_splits)
  from Cons.IH [OF run rest this Cons.prems(4)] show ?case .
qed

lemma reachable_moderate:
  assumes "set_gains AudioEqualizer_init gs = Inr s" "moderate_gains gs" "gains s n = Some g"
  shows "\<bar>g\<bar> \<le> 6000"
proof (rule set_gains_moderate [OF assms(1,2) _ assms(3)])
  fix n' g'
  assume "gains AudioEqualizer_init n' = Some g'"
  then show "\<bar>g'\<bar> \<le> 6000" using init_gains_zero by fastforce
qed

text \<open>
  Claim C2, as the code has it. In a state reached from \<open>__init__\<close> by any sequence of
  \<open>set_gain\<close> calls, \<open>set_gain\<close> with a label that is not one of the bands returns normally
  (no error is raised) and leaves the whole state, the gain table included, as it was.
\<close>

theorem set_gain_unknown_band:
  assumes "set_gains AudioEqualizer_init gs = Inr s"
    and "band_name \<notin> fst ` set (bands s)"
  shows "set_gain s band_name gain_db = Inr s"
  using assms reachable_fields(3,4) [OF assms(1)] by (simp add: set_gain_def)

theorem set_gain_unknown_band_witness:
  "set_gains AudioEqualizer_init [] = Inr AudioEqualizer_init
   \<and> ''not-a-band'' \<notin> fst ` set (bands AudioEqualizer_init)
   \<and> set_gain AudioEqualizer_init ''not-a-band'' 3 = Inr AudioEqualizer_init"
  using set_gain_unknown_band [of "[]" AudioEqualizer_init "''not-a-band''" 3]
  by (simp add: init_fields band_table_def)

text \<open>
  The spec's own example: \<open>set_gain("not-a-band", 3.0)\<close> on a fresh equalizer returns
  normally with the state unchanged; it does not end in an error.
\<close>

theorem set_gain_no_error_counterexample:
  "set_gain AudioEqualizer_init ''not-a-band'' 3 = Inr AudioEqualizer_init"
  by (simp add: set_gain_def AudioEqualizer_init_def band_table_def dom_def)

section \<open>Centre frequencies out of range\<close>

text \<open>
  A centre frequency of 0 Hz is outside the open interval from 0 to half the sample rate;
  \<open>create_peak_filter\<close> returns coefficients for it.
\<close>

theorem out_of_range_frequency_counterexample:
  "create_peak_filter AudioEqualizer_init 0 6 1 = Inr ((1, - 2, 1), (1, - 2, 1))"
proof -
  have g: "linear_gain 6 = Inr (10 powr (6 / 20))" using linear_gain_moderate [of 6] by simp
  have al: "peak_alpha AudioEqualizer_init 0 1 = 0" by (simp add: peak_alpha_def omega0_def)
  have w: "omega0 AudioEqualizer_init 0 = 0" by (simp add: omega0_def)
  show ?thesis
    by (simp add: create_peak_filter_def g Let_def peak_a0_def al w init_fields)
qed

text \<open>
  Claim C3, as the code has it. \<open>create_peak_filter\<close> does not look at the range of the
  centre frequency and has no error for it: for every frequency, inside the interval from 0
  to half the sample rate or outside it, whenever the sample rate and Q are not zero, the
  linear gain \<open>A\<close> is a nonzero number (the power neither overflows nor underflows to zero) and
  \<open>a0\<close> is not zero, it returns the coefficients of its formulas.
\<close>

theorem no_frequency_check:
  assumes "sample_rate s \<noteq> 0" "q \<noteq> 0" "linear_gain g = Inr A" "A \<noteq> 0"
    "peak_a0 s f A q \<noteq> 0"
  shows "create_peak_filter s f g q =
     Inr (((1 + sin (2 * pi * f / sample_rate s) / (2 * q) * A)
             / (1 + sin (2 * pi * f / sample_rate s) / (2 * q) / A),
           - 2 * cos (2 * pi * f / sample_rate s)
             / (1 + sin (2 * pi * f / sample_rate s) / (2 * q) / A),
           (1 - sin (2 * pi * f / sample_rate s) / (2 * q) * A)
             / (1 + sin (2 * pi * f / sample_rate s) / (2 * q) / A)),
          (1,
           - 2 * cos (2 * pi * f / sample_rate s)
             / (1 + sin (2 * pi * f / sample_rate s) / (2 * q) / A),
           (1 - sin (2 * pi * f / sample_rate s) / (2 * q) / A)
             / (1 + sin (2 * pi * f / sample_rate s) / (2 * q) / A)))"
  using create_peak_filter_value [OF assms]
  by (simp add: peak_a0_def peak_alpha_def omega0_def)

text \<open>The theorem at 30000 Hz, above half the sample rate of 44100 Hz, with 6 dB and Q = 1.\<close>

theorem no_frequency_check_witness:
  "sample_rate AudioEqualizer_init \<noteq> 0 \<and> (1::real) \<noteq> 0
   \<and> linear_gain 6 = Inr (10 powr (6 / 20)) \<and> (10::real) powr (6 / 20) \<noteq> 0
   \<and> peak_a0 AudioEqualizer_init 30000 (10 powr (6 / 20)) 1 \<noteq> 0
   \<and> create_peak_filter AudioEqualizer_init 30000 6 1 =
     Inr (((1 + sin (2 * pi * 30000 / sample_rate AudioEqualizer_init) / (2 * 1) * 10 powr (6 / 20))
             / (1 + sin (2 * pi * 30000 / sample_rate AudioEqualizer_init) / (2 * 1) / 10 powr (6 / 20)),
           - 2 * cos (2 * pi * 30000 / sample_rate AudioEqualizer_init)
             / (1 + sin (2 * pi * 30000 / sample_rate AudioEqualizer_init) / (2 * 1) / 10 powr (6 / 20)),
           (1 - sin (2 * pi * 30000 / sample_rate AudioEqualizer_init) / (2 * 1) * 10 powr (6 / 20))
             / (1 + sin (2 * pi * 30000 / sample_rate AudioEqualizer_init) / (2 * 1) / 10 powr (6 / 20))),
          (1,
           - 2 * cos (2 * pi * 30000 / sample_rate AudioEqualizer_init)
             / (1 + sin (2 * pi * 30000 / sample_rate AudioEqualizer_init) / (2 * 1) / 10 powr (6 / 20)),
           (1 - sin (2 * pi * 30000 / sample_rate AudioEqualizer_init) / (2 * 1) / 10 powr (6 / 20))
             / (1 + sin (2 * pi * 30000 / sample_rate AudioEqualizer_init) / (2 * 1) / 10 powr (6 / 20))))"
proof -
  let ?A = "(10::real) powr (6 / 20)"
  let ?al = "peak_alpha AudioEqualizer_init 30000 1"
  have g: "linear_gain 6 = Inr ?A" using linear_gain_moderate [of 6] by simp
  have A: "1 \<le> ?A" by (intro ge_one_powr_ge_zero) simp_all
  have "- 1 \<le> sin (omega0 AudioEqualizer_init 30000)" by simp
  then have al: "- (1 / 2) \<le> ?al" by (simp add: peak_alpha_def)
  have "- (1 / 2) \<le> ?al / ?A"
  proof (cases "0 \<le> ?al")
    case True
    then have "0 \<le> ?al / ?A" using A by simp
    then show ?thesis by linarith
  next
    case False
    then have "?al / ?A \<ge> ?al / 1" using A by (intro divide_left_mono_neg) simp_all
    with al show ?thesis by simp
  qed
  then have a0: "peak_a0 AudioEqualizer_init 30000 ?A 1 \<noteq> 0" by (simp add: peak_a0_def)
  have h: "sample_rate AudioEqualizer_init \<noteq> 0" "(1::real) \<noteq> 0" "?A \<noteq> 0"
    by (simp_all add: init_fields)
  from no_frequency_check [OF h(1,2) g h(3) a0] g a0 h show ?thesis by simp
qed
section \<open>Zero gain\<close>

text \<open>The band \<open>6 kHz\<close> at 44100 Hz has its angular frequency between \<open>pi / 6\<close> and \<open>pi / 3\<close>.\<close>

lemma omega0_6k: "omega0 AudioEqualizer_init 6000 = pi * (40 / 147)"
  by (simp add: omega0_def init_fields)

lemma omega0_6k_range:
  "pi / 6 \<le> omega0 AudioEqualizer_init 6000" "omega0 AudioEqualizer_init 6000 \<le> pi / 3"
  using pi_gt_zero by (simp_all add: omega0_6k)

lemma sin_6k: "1 / 2 \<le> sin (omega0 AudioEqualizer_init 6000)"
proof -
  have "sin (pi / 6) \<le> sin (omega0 AudioEqualizer_init 6000)"
    using omega0_6k_range pi_gt_zero by (intro sin_monotone_2pi_le) simp_all
  then show ?thesis by (simp add: sin_30)
qed

lemma cos_6k: "1 / 2 \<le> cos (omega0 AudioEqualizer_init 6000)"
proof -
  have "cos (pi / 3) \<le> cos (omega0 AudioEqualizer_init 6000)"
    using omega0_6k_range pi_gt_zero by (intro cos_monotone_0_pi_le) simp_all
  then show ?thesis by (simp add: cos_60)
qed






section \<open>Shapes\<close>

lemma length_lfilter_run: "length (lfilter_run b a z xs) = length xs"
  by (induction b a z xs rule: lfilter_run.induct) (simp_all add: Let_def)

lemma length_lfilter: "length (lfilter b a xs) = length xs"
  by (simp add: lfilter_def length_lfilter_run split: prod.split)

lemma row_lengths_set_column:
  assumes "length ys = length rows"
  shows "map length (set_column ch ys rows) = map length rows"
proof -
  have "map length (set_column ch ys rows) = map (length \<circ> fst) (zip rows ys)"
    by (simp add: set_column_def comp_def case_prod_unfold)
  also have "\<dots> = map length (map fst (zip rows ys))" by simp
  also have "\<dots> = map length rows" using assms by simp
  finally show ?thesis .
qed

lemma row_lengths_filter_channel:
  "map length (filter_channel b a ch rows) = map length rows"
  by (simp add: filter_channel_def row_lengths_set_column length_lfilter column_def)

lemma row_lengths_filter_channels:
  "map length (fold (filter_channel b a) chs rows) = map length rows"
  by (induction chs arbitrary: rows) (simp_all add: row_lengths_filter_channel)

lemma rectangular_row_lengths:
  "rectangular (Multi c rows) \<longleftrightarrow> list_all (\<lambda>n. n = c) (map length rows)"
  by (simp add: list_all_iff)

lemma shape_filter_audio: "shape (filter_audio b a x) = shape x"
proof (cases x)
  case (Mono xs)
  then show ?thesis by (simp add: length_lfilter)
next
  case (Multi c rows)
  have "length (fold (filter_channel b a) [0..<c] rows) = length rows"
    using row_lengths_filter_channels [of b a "[0..<c]" rows] by (metis length_map)
  with Multi show ?thesis by simp
qed

lemma rectangular_filter_audio: "rectangular (filter_audio b a x) = rectangular x"
proof (cases x)
  case (Mono xs)
  then show ?thesis by simp
next
  case (Multi c rows)
  then show ?thesis
    by (simp only: filter_audio.simps rectangular_row_lengths row_lengths_filter_channels)
qed

lemma shape_clip_audio: "shape (clip_audio x) = shape x"
  by (cases x) simp_all

lemma rectangular_clip_audio: "rectangular (clip_audio x) = rectangular x"
  by (cases x) (simp_all add: list_all_iff)



section \<open>The loop over the bands\<close>

lemma apply_band_shape:
  assumes "apply_band s band x = Inr y"
  shows "shape y = shape x \<and> rectangular y = rectangular x"
  using assms
  by (auto simp: apply_band_def shape_filter_audio rectangular_filter_audio
      split: option.splits if_splits sum.splits)

lemma apply_bands_shape:
  "apply_bands s bs x = Inr y \<Longrightarrow> shape y = shape x \<and> rectangular y = rectangular x"
proof (induction bs arbitrary: x)
  case Nil
  then show ?case by simp
next
  case (Cons band bs)
  from Cons.prems obtain x1 where x1: "apply_band s band x = Inr x1"
    and rest: "apply_bands s bs x1 = Inr y"
    by (auto split: sum.splits)
  from Cons.IH [OF rest] apply_band_shape [OF x1] show ?case by simp
qed

lemma band_table_range: "band \<in> set band_table \<Longrightarrow> 0 < snd band \<and> snd band < 44100 / 2"
  by (auto simp: band_table_def)

text \<open>
  In a state reached by \<open>set_gain\<close> calls every band has a gain; when the gains set were
  moderate, \<open>create_peak_filter\<close> returns coefficients for it.
\<close>

lemma reachable_gain:
  assumes "set_gains AudioEqualizer_init gs = Inr s" and "band \<in> set band_table"
  shows "\<exists>g. gains s (fst band) = Some g"
proof -
  have "fst band \<in> dom (gains s)"
    using reachable_fields(4) [OF assms(1)] assms(2) by simp
  then show ?thesis by blast
qed

lemma reachable_constraints:
  assumes "set_gains AudioEqualizer_init gs = Inr s" and "band \<in> set band_table"
  shows "0 < sample_rate s" "0 < snd band" "snd band < sample_rate s / 2" "0 < q_factor s"
  using reachable_fields(1,2) [OF assms(1)] band_table_range [OF assms(2)] by simp_all

lemma reachable_filter:
  assumes "set_gains AudioEqualizer_init gs = Inr s" and "moderate_gains gs"
    and "band \<in> set band_table" and "gains s (fst band) = Some g"
  shows "\<exists>b a. create_peak_filter s (snd band) g (q_factor s) = Inr (b, a)"
proof -
  have "\<bar>g\<bar> \<le> 6000" by (rule reachable_moderate [OF assms(1,2,4)])
  from create_peak_filter_moderate [OF reachable_constraints [OF assms(1,3)] this]
  show ?thesis .
qed

lemma apply_band_total:
  assumes "set_gains AudioEqualizer_init gs = Inr s" and "moderate_gains gs"
    and "band \<in> set band_table"
  shows "\<exists>y. apply_band s band x = Inr y"
proof -
  obtain g where g: "gains s (fst band) = Some g"
    using reachable_gain [OF assms(1,3)] by blast
  obtain b a where "create_peak_filter s (snd band) g (q_factor s) = Inr (b, a)"
    using reachable_filter [OF assms g] by blast
  with g show ?thesis by (simp add: apply_band_def)
qed

lemma apply_bands_total:
  assumes "set_gains AudioEqualizer_init gs = Inr s" and "moderate_gains gs"
  shows "set bs \<subseteq> set band_table \<Longrightarrow> \<exists>y. apply_bands s bs x = Inr y"
proof (induction bs arbitrary: x)
  case Nil
  then show ?case by simp
next
  case (Cons band bs)
  then have "band \<in> set band_table" by simp
  from apply_band_total [OF assms this] obtain x1 where "apply_band s band x = Inr x1"
    by blast
  moreover have "\<exists>y. apply_bands s bs x1 = Inr y" using Cons by simp
  ultimately show ?case by simp
qed

lemma apply_equalizer_reachable:
  assumes "set_gains AudioEqualizer_init gs = Inr s" and "moderate_gains gs"
  shows "\<exists>y. apply_bands s (bands s) x = Inr y \<and> apply_equalizer s x = Inr (clip_audio y)"
proof -
  have "set (bands s) \<subseteq> set band_table" using reachable_fields(3) [OF assms(1)] by simp
  from apply_bands_total [OF assms this] obtain y where "apply_bands s (bands s) x = Inr y"
    by blast
  then show ?thesis by (simp add: apply_equalizer_def)
qed

lemma apply_equalizer_shape:
  assumes "apply_equalizer s x = Inr out"
  shows "shape out = shape x \<and> rectangular out = rectangular x"
proof -
  from assms obtain y where y: "apply_bands s (bands s) x = Inr y" and out: "out = clip_audio y"
    by (auto simp: apply_equalizer_def split: sum.splits)
  from apply_bands_shape [OF y] show ?thesis
    by (simp add: out shape_clip_audio rectangular_clip_audio)
qed

text \<open>One setting and the state it leads to, for the examples.\<close>

lemma set_one_gain:
  assumes "n \<in> fst ` set band_table"
  shows "set_gains AudioEqualizer_init [(n, g)]
     = Inr (AudioEqualizer_init\<lparr>gains := (gains AudioEqualizer_init)(n \<mapsto> g)\<rparr>)"
  using assms by (simp add: set_gain_def init_dom)

section \<open>\<open>apply_equalizer\<close> in the states the host can reach\<close>




text \<open>
  Claim C9. In any state reached by \<open>set_gain\<close> calls on a fresh equalizer, whenever
  \<open>apply_equalizer\<close> returns a block, it has the shape of the input block: mono with the same
  number of samples, or the same number of frames and channels, every row as long as before.
  With gains of at most 6000 dB in absolute value it does return a block.
\<close>

theorem output_shape:
  assumes "set_gains AudioEqualizer_init gs = Inr s"
  shows "(\<forall>out. apply_equalizer s x = Inr out \<longrightarrow>
            shape out = shape x \<and> rectangular out = rectangular x)
     \<and> (moderate_gains gs \<longrightarrow> (\<exists>out. apply_equalizer s x = Inr out))"
  using apply_equalizer_shape apply_equalizer_reachable [OF assms] by blast

theorem output_shape_witness:
  "set_gains AudioEqualizer_init [(''1 kHz'', 6)]
     = Inr (AudioEqualizer_init\<lparr>gains := (gains AudioEqualizer_init)(''1 kHz'' \<mapsto> 6)\<rparr>)
   \<and> moderate_gains [(''1 kHz'', 6)]
   \<and> (\<exists>out. apply_equalizer
               (AudioEqualizer_init\<lparr>gains := (gains AudioEqualizer_init)(''1 kHz'' \<mapsto> 6)\<rparr>)
               (Multi 2 [[1 / 2, - 3], [2, 0], [0, 1]]) = Inr out
          \<and> shape out = [3, 2] \<and> rectangular out)"
proof -
  have run: "set_gains AudioEqualizer_init [(''1 kHz'', 6)]
     = Inr (AudioEqualizer_init\<lparr>gains := (gains AudioEqualizer_init)(''1 kHz'' \<mapsto> 6)\<rparr>)"
    by (rule set_one_gain) (simp add: band_table_def)
  have h: "moderate_gains [(''1 kHz'', 6)]" by (simp add: moderate_gains_def)
  from output_shape [OF run, of "Multi 2 [[1 / 2, - 3], [2, 0], [0, 1]]"] h run
  show ?thesis by auto
qed

lemma apply_bands_all_zero:
  "\<forall>band \<in> set bs. gains s (fst band) = Some 0 \<Longrightarrow> apply_bands s bs x = Inr x"
  by (induction bs) (simp_all add: apply_band_def)

text \<open>
  Claim C7. When the gain of every band is 0 dB, \<open>apply_equalizer\<close> returns the input
  clipped elementwise to the range from -1 to 1.
\<close>

theorem zero_gains_pass_through:
  assumes "\<forall>band \<in> set (bands s). gains s (fst band) = Some 0"
  shows "apply_equalizer s x = Inr (clip_audio x)"
  using apply_bands_all_zero [OF assms] by (simp add: apply_equalizer_def)

theorem zero_gains_pass_through_witness:
  "list_all (\<lambda>band. gains AudioEqualizer_init (fst band) = Some 0) (bands AudioEqualizer_init)
   \<and> apply_equalizer AudioEqualizer_init (Mono [1 / 2, - 3, 2]) = Inr (Mono [1 / 2, - 1, 1])"
proof -
  have h: "\<forall>band \<in> set (bands AudioEqualizer_init). gains AudioEqualizer_init (fst band) = Some 0"
    by (simp add: AudioEqualizer_init_def band_table_def)
  from zero_gains_pass_through [OF h, of "Mono [1 / 2, - 3, 2]"] h show ?thesis
    by (simp add: clip_def list_all_iff)
qed

section \<open>The skip threshold\<close>

lemma lfilter_impulse: "lfilter (b0, b1, b2) (1, a1, a2) [x] = [b0 * x]"
  by (simp add: lfilter_def)











section \<open>Blocks and filter history\<close>

text \<open>The filters are causal: the first \<open>n\<close> output frames depend on the first \<open>n\<close> input frames only.\<close>

lemma lfilter_run_take:
  "lfilter_run b a z (take n xs) = take n (lfilter_run b a z xs)"
proof (induction b a z xs arbitrary: n rule: lfilter_run.induct)
  case (1 b a z)
  then show ?case by simp
next
  case (2 b0 b1 b2 a0 a1 a2 z0 z1 x xs)
  then show ?case by (cases n) (simp_all add: Let_def)
qed

lemma lfilter_take: "lfilter b a (take n xs) = take n (lfilter b a xs)"
  by (simp add: lfilter_def lfilter_run_take split: prod.split)

lemma column_take: "column ch (take n rows) = take n (column ch rows)"
  by (simp add: column_def take_map)

lemma set_column_take:
  "set_column ch (take n ys) (take n rows) = take n (set_column ch ys rows)"
  by (simp add: set_column_def take_map take_zip)

lemma filter_channel_take:
  "filter_channel b a ch (take n rows) = take n (filter_channel b a ch rows)"
  by (simp add: filter_channel_def column_take lfilter_take set_column_take)

lemma filter_channels_take:
  "fold (filter_channel b a) chs (take n rows) = take n (fold (filter_channel b a) chs rows)"
  by (induction chs arbitrary: rows) (simp_all add: filter_channel_take)

lemma filter_audio_take: "filter_audio b a (take_frames n x) = take_frames n (filter_audio b a x)"
  by (cases x) (simp_all add: lfilter_take filter_channels_take)

lemma clip_audio_take: "clip_audio (take_frames n x) = take_frames n (clip_audio x)"
  by (cases x) (simp_all add: take_map)

lemma apply_band_take:
  assumes "apply_band s band x = Inr y"
  shows "apply_band s band (take_frames n x) = Inr (take_frames n y)"
  using assms
  by (auto simp: apply_band_def filter_audio_take split: option.splits if_splits sum.splits)

lemma apply_bands_take:
  "apply_bands s bs x = Inr y \<Longrightarrow> apply_bands s bs (take_frames n x) = Inr (take_frames n y)"
proof (induction bs arbitrary: x)
  case Nil
  then show ?case by simp
next
  case (Cons band bs)
  from Cons.prems obtain x1 where x1: "apply_band s band x = Inr x1"
    and rest: "apply_bands s bs x1 = Inr y"
    by (auto split: sum.splits)
  from Cons.IH [OF rest] apply_band_take [OF x1, of n] show ?case by simp
qed

lemma apply_equalizer_take:
  assumes "apply_equalizer s x = Inr y"
  shows "apply_equalizer s (take_frames n x) = Inr (take_frames n y)"
proof -
  from assms obtain z where z: "apply_bands s (bands s) x = Inr z" and y: "y = clip_audio z"
    by (auto simp: apply_equalizer_def split: sum.splits)
  from apply_bands_take [OF z, of n] show ?thesis
    by (simp add: apply_equalizer_def y clip_audio_take)
qed

text \<open>Silence fed to a filter at rest leaves it at rest and comes out as silence.\<close>

lemma lfilter_run_silent:
  "lfilter_run (b0, b1, b2) (a0, a1, a2) (0, 0) (replicate k 0 @ xs)
     = replicate k 0 @ lfilter_run (b0, b1, b2) (a0, a1, a2) (0, 0) xs"
  by (induction k) (simp_all add: Let_def)

lemma lfilter_silent: "lfilter b a (replicate k 0 @ xs) = replicate k 0 @ lfilter b a xs"
  by (simp add: lfilter_def lfilter_run_silent split: prod.split)

lemma column_silent:
  "ch < c \<Longrightarrow> column ch (replicate k (replicate c 0) @ rows) = replicate k 0 @ column ch rows"
  by (simp add: column_def)

lemma set_column_silent:
  "set_column ch (replicate k 0 @ ys) (replicate k (replicate c 0) @ rows)
     = replicate k (replicate c 0) @ set_column ch ys rows"
proof -
  have "(replicate c (0::real))[ch := 0] = replicate c 0"
  proof (cases "ch < c")
    case True
    then have "(replicate c (0::real))[ch := 0] = (replicate c 0)[ch := replicate c 0 ! ch]"
      by simp
    then show ?thesis by (simp only: list_update_id)
  next
    case False
    then show ?thesis by (simp add: list_update_beyond)
  qed
  then show ?thesis by (simp add: set_column_def)
qed

lemma filter_channel_silent:
  "ch < c \<Longrightarrow> filter_channel b a ch (replicate k (replicate c 0) @ rows)
     = replicate k (replicate c 0) @ filter_channel b a ch rows"
  by (simp add: filter_channel_def column_silent lfilter_silent set_column_silent)

lemma filter_channels_silent:
  "\<forall>ch \<in> set chs. ch < c \<Longrightarrow>
     fold (filter_channel b a) chs (replicate k (replicate c 0) @ rows)
       = replicate k (replicate c 0) @ fold (filter_channel b a) chs rows"
  by (induction chs arbitrary: rows) (simp_all add: filter_channel_silent)

lemma filter_audio_silent:
  "filter_audio b a (silent_frames k x) = silent_frames k (filter_audio b a x)"
  by (cases x) (simp_all add: lfilter_silent filter_channels_silent)

lemma clip_audio_silent: "clip_audio (silent_frames k x) = silent_frames k (clip_audio x)"
  by (cases x) (simp_all add: clip_def)

lemma apply_band_silent:
  assumes "apply_band s band x = Inr y"
  shows "apply_band s band (silent_frames k x) = Inr (silent_frames k y)"
  using assms
  by (auto simp: apply_band_def filter_audio_silent split: option.splits if_splits sum.splits)

lemma apply_bands_silent:
  "apply_bands s bs x = Inr y \<Longrightarrow>
     apply_bands s bs (silent_frames k x) = Inr (silent_frames k y)"
proof (induction bs arbitrary: x)
  case Nil
  then show ?case by simp
next
  case (Cons band bs)
  from Cons.prems obtain x1 where x1: "apply_band s band x = Inr x1"
    and rest: "apply_bands s bs x1 = Inr y"
    by (auto split: sum.splits)
  from Cons.IH [OF rest] apply_band_silent [OF x1, of k] show ?case by simp
qed

lemma apply_equalizer_silent:
  assumes "apply_equalizer s x = Inr y"
  shows "apply_equalizer s (silent_frames k x) = Inr (silent_frames k y)"
proof -
  from assms obtain z where z: "apply_bands s (bands s) x = Inr z" and y: "y = clip_audio z"
    by (auto simp: apply_equalizer_def split: sum.splits)
  from apply_bands_silent [OF z, of k] show ?thesis
    by (simp add: apply_equalizer_def y clip_audio_silent)
qed

text \<open>
  Claim C1, as the code has it. \<open>apply_equalizer\<close> keeps no filter history between calls:
  every call starts its filters from a zero delay line. For gains of at most 6000 dB in
  absolute value and a signal cut into a first block of \<open>n\<close> frames and the rest, the first
  block comes out as the first \<open>n\<close> frames of the whole signal processed as one block; the
  second block comes out as if only silence had come before it: with \<open>k\<close> frames of silence
  put before it, it comes out as \<open>k\<close> frames of silence followed by the same output.
\<close>

theorem blocks_from_zero_history:
  assumes "moderate_gains gs"
  shows "\<exists>s whole rest.
      set_gains AudioEqualizer_init gs = Inr s
    \<and> apply_equalizer s x = Inr whole
    \<and> process_blocks s [take_frames n x, drop_frames n x] = Inr [take_frames n whole, rest]
    \<and> apply_equalizer s (silent_frames k (drop_frames n x)) = Inr (silent_frames k rest)"
proof -
  obtain s where s: "set_gains AudioEqualizer_init gs = Inr s"
    using set_gains_total by blast
  obtain whole where whole: "apply_equalizer s x = Inr whole"
    using apply_equalizer_reachable [OF s assms] by blast
  obtain rest where rest: "apply_equalizer s (drop_frames n x) = Inr rest"
    using apply_equalizer_reachable [OF s assms] by blast
  have "process_blocks s [take_frames n x, drop_frames n x] = Inr [take_frames n whole, rest]"
    using apply_equalizer_take [OF whole, of n] rest by simp
  with s whole apply_equalizer_silent [OF rest, of k] show ?thesis by blast
qed

theorem blocks_from_zero_history_witness:
  "moderate_gains [(''6 kHz'', 20)]
   \<and> (\<exists>s whole rest.
      set_gains AudioEqualizer_init [(''6 kHz'', 20)] = Inr s
    \<and> apply_equalizer s (Mono [1 / 2, 0]) = Inr whole
    \<and> process_blocks s [take_frames 1 (Mono [1 / 2, 0]), drop_frames 1 (Mono [1 / 2, 0])]
         = Inr [take_frames 1 whole, rest]
    \<and> apply_equalizer s (silent_frames 1 (drop_frames 1 (Mono [1 / 2, 0])))
         = Inr (silent_frames 1 rest))"
proof -
  have h: "moderate_gains [(''6 kHz'', 20)]" by (simp add: moderate_gains_def)
  from blocks_from_zero_history [OF h, of "Mono [1 / 2, 0]" 1 1] h show ?thesis by blast
qed

text \<open>The band \<open>6 kHz\<close> boosted by 20 dB.\<close>

lemma lfilter_two:
  "lfilter (b0, b1, b2) (1, a1, a2) [x0, x1] = [b0 * x0, b0 * x1 + (b1 * x0 - a1 * (b0 * x0))]"
  by (simp add: lfilter_def Let_def)

lemma boost_bounds:
  fixes sn cs a0 b0 b1 :: real
  assumes sn: "1 / 2 \<le> sn" "sn \<le> 1" and cs: "1 / 2 \<le> cs"
    and a0: "a0 = 1 + sn / 2 / 10"
    and b0: "b0 = (1 + sn / 2 * 10) / a0"
    and b1: "b1 = - 2 * cs / a0"
  shows "2 \<le> b0" and "2 \<le> b1 * (1 - b0)"
proof -
  have pos: "0 < a0" and le: "a0 \<le> 21 / 20" using sn by (simp_all add: a0)
  have "2 * a0 \<le> 1 + sn / 2 * 10" using sn by (simp add: a0)
  then show "2 \<le> b0" unfolding b0 using pos by (simp only: pos_le_divide_eq)
  have "1 - b0 = (a0 - (1 + sn / 2 * 10)) / a0"
    unfolding b0 using pos by (simp add: diff_divide_distrib)
  also have "a0 - (1 + sn / 2 * 10) = - (99 / 20 * sn)" by (simp add: a0)
  finally have d: "1 - b0 = - (99 / 20 * sn) / a0" .
  have prod: "b1 * (1 - b0) = (cs * sn * (99 / 10)) / (a0 * a0)"
    unfolding b1 d by simp
  have sq: "a0 * a0 \<le> 21 / 20 * (21 / 20)"
    using pos le by (intro mult_mono) simp_all
  have "1 / 2 * (1 / 2) \<le> cs * sn" using sn cs by (intro mult_mono) simp_all
  then have "2 * (21 / 20 * (21 / 20)) \<le> cs * sn * (99 / 10)" by simp
  with sq have "2 * (a0 * a0) \<le> cs * sn * (99 / 10)" by linarith
  moreover have "0 < a0 * a0" using pos by simp
  ultimately have "2 \<le> (cs * sn * (99 / 10)) / (a0 * a0)"
    by (simp only: pos_le_divide_eq)
  then show "2 \<le> b1 * (1 - b0)" by (simp only: prod)
qed

lemma clip_ge_one: "1 \<le> x \<Longrightarrow> clip x (- 1) 1 = 1"
  by (simp add: clip_def)

text \<open>
  With the band \<open>6 kHz\<close> at 20 dB, the signal \<open>[0.5, 0]\<close> processed as one block gives
  \<open>[1, 1]\<close>; fed as the two blocks \<open>[0.5]\<close> and \<open>[0]\<close> it gives \<open>[1]\<close> and \<open>[0]\<close>: the second
  sample is 0 instead of 1.
\<close>

theorem no_history_counterexample:
  "apply_equalizer (AudioEqualizer_init\<lparr>gains := (gains AudioEqualizer_init)(''6 kHz'' \<mapsto> 20)\<rparr>)
       (Mono [1 / 2, 0]) = Inr (Mono [1, 1])
   \<and> process_blocks (AudioEqualizer_init\<lparr>gains := (gains AudioEqualizer_init)(''6 kHz'' \<mapsto> 20)\<rparr>)
       [Mono [1 / 2], Mono [0]] = Inr [Mono [1], Mono [0]]"
proof -
  let ?S = "AudioEqualizer_init\<lparr>gains := (gains AudioEqualizer_init)(''6 kHz'' \<mapsto> 20)\<rparr>"
  define sn where "sn = sin (omega0 AudioEqualizer_init 6000)"
  define cs where "cs = cos (omega0 AudioEqualizer_init 6000)"
  define a0 where "a0 = 1 + sn / 2 / 10"
  define b0 where "b0 = (1 + sn / 2 * 10) / a0"
  define b1 where "b1 = - 2 * cs / a0"
  define b2 where "b2 = (1 - sn / 2 * 10) / a0"
  define a2 where "a2 = (1 - sn / 2 / 10) / a0"
  have sn: "1 / 2 \<le> sn" "sn \<le> 1" and cs: "1 / 2 \<le> cs"
    using sin_6k cos_6k by (simp_all add: sn_def cs_def)
  have b: "2 \<le> b0" "2 \<le> b1 * (1 - b0)"
    using boost_bounds [OF sn cs a0_def b0_def b1_def] by simp_all
  have w: "omega0 ?S 6000 = omega0 AudioEqualizer_init 6000" by (simp add: omega0_def)
  have pos: "0 < a0" using sn by (simp add: a0_def)
  have al: "peak_alpha ?S 6000 1 = sn / 2" by (simp add: peak_alpha_def w sn_def)
  have pa0: "peak_a0 ?S 6000 10 1 = a0" by (simp add: peak_a0_def al a0_def)
  have cpf: "create_peak_filter ?S 6000 20 1 = Inr ((b0, b1, b2), (1, b1, a2))"
    using pos
    by (simp add: create_peak_filter_def Let_def pa0 al w linear_gain_20 init_fields
        b0_def b1_def b2_def a2_def cs_def)
  have g: "gains ?S = (map_of (map (\<lambda>band. (fst band, 0)) band_table))(''6 kHz'' \<mapsto> 20)"
    by (simp add: AudioEqualizer_init_def)
  have q: "q_factor ?S = 1" "bands ?S = band_table" by (simp_all add: init_fields)
  have bands: "apply_bands ?S band_table x = Inr (filter_audio (b0, b1, b2) (1, b1, a2) x)" for x
    by (simp add: band_table_def apply_band_def g q(1) cpf)
  have eq: "apply_equalizer ?S x = Inr (clip_audio (filter_audio (b0, b1, b2) (1, b1, a2) x))" for x
    by (simp add: apply_equalizer_def init_fields bands)
  define y0 where "y0 = b0 * (1 / 2)"
  define y1 where "y1 = b0 * 0 + (b1 * (1 / 2) - b1 * (b0 * (1 / 2)))"
  have two: "lfilter (b0, b1, b2) (1, b1, a2) [1 / 2, 0] = [y0, y1]"
    unfolding y0_def y1_def by (rule lfilter_two)
  have one: "lfilter (b0, b1, b2) (1, b1, a2) [1 / 2] = [y0]"
    unfolding y0_def by (rule lfilter_impulse)
  have zero: "lfilter (b0, b1, b2) (1, b1, a2) [0] = [0]"
    using lfilter_impulse [of b0 b1 b2 b1 a2 0] by simp
  have y0: "1 \<le> y0" using b(1) by (simp add: y0_def)
  have "y1 = b1 * (1 - b0) / 2" by (simp add: y1_def algebra_simps)
  then have y1: "1 \<le> y1" using b(2) by simp
  have whole: "apply_equalizer ?S (Mono [1 / 2, 0]) = Inr (Mono [1, 1])"
    by (simp add: eq two clip_ge_one [OF y0] clip_ge_one [OF y1])
  have first: "apply_equalizer ?S (Mono [1 / 2]) = Inr (Mono [1])"
    by (simp add: eq one clip_ge_one [OF y0])
  have second: "apply_equalizer ?S (Mono [0]) = Inr (Mono [0])"
    by (simp add: eq zero clip_def)
  have "process_blocks ?S [Mono [1 / 2], Mono [0]] = Inr [Mono [1], Mono [0]]"
    by (simp add: first second)
  with whole show ?thesis by simp
qed

section \<open>The argument is not written\<close>

text \<open>
  The loop keeps \<open>output\<close> a reference to an array made inside the call, holding the value
  the value-level loop has reached; the arrays that existed before the call stay as they were.
\<close>

lemma store_filter_channels:
  assumes "n \<le> q" "q < length h" "h ! q = Multi c rows"
  shows "length (fold (store_filter_channel b a q) chs h) = length h
    \<and> take n (fold (store_filter_channel b a q) chs h) = take n h
    \<and> fold (store_filter_channel b a q) chs h ! q = Multi c (fold (filter_channel b a) chs rows)"
  using assms
proof (induction chs arbitrary: h rows)
  case Nil
  then show ?case by simp
next
  case (Cons ch chs)
  let ?h = "store_filter_channel b a q ch h"
  have h1: "?h = h[q := Multi c (filter_channel b a ch rows)]"
    using Cons.prems by (simp add: store_filter_channel_def)
  have "q < length ?h" "?h ! q = Multi c (filter_channel b a ch rows)"
    using Cons.prems by (simp_all add: h1)
  from Cons.IH [OF Cons.prems(1) this]
  show ?case using Cons.prems(1) by (simp add: h1)
qed

lemma filter_store_inv:
  assumes "fresh_at n (h, q)" and "filter_store b a (h, q) = (h', q')"
  shows "fresh_at n (h', q') \<and> take n h' = take n h \<and> h' ! q' = filter_audio b a (h ! q)"
proof (cases "h ! q")
  case (Mono xs)
  with assms(2) have "h' = h @ [Mono (lfilter b a xs)]" "q' = length h"
    by (auto simp: filter_store_def alloc_def)
  with assms(1) Mono show ?thesis by (simp add: fresh_at_def)
next
  case (Multi c rows)
  with assms(2) have h': "h' = fold (store_filter_channel b a q) [0..<c] h" and q': "q' = q"
    by (auto simp: filter_store_def)
  have "n \<le> q" "q < length h" using assms(1) by (simp_all add: fresh_at_def)
  from store_filter_channels [OF this Multi, of b a "[0..<c]"]
  show ?thesis using \<open>n \<le> q\<close> \<open>q < length h\<close> by (simp add: h' q' Multi fresh_at_def)
qed

lemma apply_band_store_inv:
  assumes "fresh_at n (h, q)" and "apply_band s band (h ! q) = Inr y"
  shows "\<exists>h' q'. apply_band_store s band (h, q) = Inr (h', q')
     \<and> fresh_at n (h', q') \<and> take n h' = take n h \<and> h' ! q' = y"
proof -
  obtain g where g: "gains s (fst band) = Some g"
    using assms(2) by (auto simp: apply_band_def split: option.splits)
  show ?thesis
  proof (cases "\<bar>g\<bar> > 1 / 10")
    case True
    with g assms(2) obtain b a where ba: "create_peak_filter s (snd band) g (q_factor s) = Inr (b, a)"
      and y: "y = filter_audio b a (h ! q)"
      by (auto simp: apply_band_def split: sum.splits)
    obtain h' q' where f: "filter_store b a (h, q) = (h', q')" by (cases "filter_store b a (h, q)")
    from filter_store_inv [OF assms(1) f] g True ba f y show ?thesis
      by (simp add: apply_band_store_def)
  next
    case False
    with g assms show ?thesis by (simp add: apply_band_store_def apply_band_def)
  qed
qed

lemma apply_bands_store_inv:
  "fresh_at n (h, q) \<Longrightarrow> apply_bands s bs (h ! q) = Inr y \<Longrightarrow>
     \<exists>h' q'. apply_bands_store s bs (h, q) = Inr (h', q')
       \<and> fresh_at n (h', q') \<and> take n h' = take n h \<and> h' ! q' = y"
proof (induction bs arbitrary: h q)
  case Nil
  then show ?case by simp
next
  case (Cons band bs)
  from Cons.prems(2) obtain x1 where x1: "apply_band s band (h ! q) = Inr x1"
    and rest: "apply_bands s bs x1 = Inr y"
    by (auto split: sum.splits)
  from apply_band_store_inv [OF Cons.prems(1) x1] obtain h1 q1
    where s1: "apply_band_store s band (h, q) = Inr (h1, q1)"
      and f1: "fresh_at n (h1, q1)" and t1: "take n h1 = take n h" and v1: "h1 ! q1 = x1"
    by blast
  from Cons.IH [OF f1] rest v1 obtain h' q'
    where "apply_bands_store s bs (h1, q1) = Inr (h', q')"
      "fresh_at n (h', q')" "take n h' = take n h1" "h' ! q' = y"
    by auto
  with s1 t1 show ?case by simp
qed

lemma apply_equalizer_store_inv:
  assumes "apply_equalizer s (h ! p) = Inr out"
  shows "\<exists>h' r. apply_equalizer_store s h p = Inr (h', r)
     \<and> take (length h) h' = h \<and> length h \<le> r \<and> r < length h' \<and> h' ! r = out"
proof -
  from assms obtain y where y: "apply_bands s (bands s) (h ! p) = Inr y"
    and out: "out = clip_audio y"
    by (auto simp: apply_equalizer_def split: sum.splits)
  let ?h1 = "h @ [h ! p]"
  have f: "fresh_at (length h) (?h1, length h)" by (simp add: fresh_at_def)
  have v: "?h1 ! length h = h ! p" by simp
  from apply_bands_store_inv [OF f, of s "bands s" y] y v obtain h2 q2
    where run: "apply_bands_store s (bands s) (?h1, length h) = Inr (h2, q2)"
      and f2: "fresh_at (length h) (h2, q2)" and t2: "take (length h) h2 = take (length h) ?h1"
      and v2: "h2 ! q2 = y"
    by auto
  have len: "length h \<le> length h2" using f2 by (simp add: fresh_at_def)
  have "apply_equalizer_store s h p = Inr (h2 @ [clip_audio y], length h2)"
    by (simp add: apply_equalizer_store_def alloc_def run v2)
  moreover have "take (length h) (h2 @ [clip_audio y]) = h" using t2 len by simp
  ultimately show ?thesis using len out by simp
qed

text \<open>Whether a band raises does not depend on the array, so both loops fail together.\<close>

lemma apply_band_error:
  "apply_band_store s band st = Inl e \<longleftrightarrow> apply_band s band v = Inl e"
  by (auto simp: apply_band_store_def apply_band_def split: option.splits sum.splits)

lemma apply_bands_error:
  "apply_bands s bs v = Inl e \<Longrightarrow> apply_bands_store s bs st = Inl e"
proof (induction bs arbitrary: v st)
  case Nil
  then show ?case by simp
next
  case (Cons band bs)
  show ?case
  proof (cases "apply_band s band v")
    case (Inl e1)
    with Cons.prems have "apply_band s band v = Inl e" by simp
    then have "apply_band_store s band st = Inl e"
      using apply_band_error [of s band st e v] by simp
    then show ?thesis by simp
  next
    case (Inr v1)
    with Cons.prems have rest: "apply_bands s bs v1 = Inl e" by simp
    show ?thesis
    proof (cases "apply_band_store s band st")
      case (Inl e2)
      then have "apply_band s band v = Inl e2"
        using apply_band_error [of s band st e2 v] by simp
      with Inr show ?thesis by simp
    next
      case (Inr st1)
      with Cons.IH [OF rest, of st1] show ?thesis by simp
    qed
  qed
qed

lemma apply_equalizer_store_returns:
  assumes "apply_equalizer_store s h p = Inr (h', r)"
  shows "\<exists>out. apply_equalizer s (h ! p) = Inr out"
proof (cases "apply_equalizer s (h ! p)")
  case (Inl e)
  then have "apply_bands s (bands s) (h ! p) = Inl e"
    by (auto simp: apply_equalizer_def split: sum.splits)
  from apply_bands_error [OF this] have "apply_equalizer_store s h p = Inl e"
    by (simp add: apply_equalizer_store_def)
  with assms show ?thesis by simp
next
  case (Inr out)
  then show ?thesis by blast
qed

text \<open>
  Claim C10. \<open>apply_equalizer\<close> does not write to its argument: in any state reached by
  \<open>set_gain\<close> calls and for any store and any array in it, whenever the call returns, the
  argument array and every other array that existed before the call hold the values they held
  before, the result is a new array, and its value is the one \<open>apply_equalizer\<close> computes
  from the value of the argument. With gains of at most 6000 dB in absolute value the call
  does return.
\<close>

theorem argument_not_mutated:
  assumes "audio_data < length h" and "set_gains AudioEqualizer_init gs = Inr s"
  shows "(\<forall>h' result. apply_equalizer_store s h audio_data = Inr (h', result) \<longrightarrow>
            h' ! audio_data = h ! audio_data
          \<and> take (length h) h' = h
          \<and> length h \<le> result \<and> result < length h'
          \<and> apply_equalizer s (h ! audio_data) = Inr (h' ! result))
     \<and> (moderate_gains gs \<longrightarrow>
            (\<exists>h' result. apply_equalizer_store s h audio_data = Inr (h', result)))"
proof -
  have frame: "h' ! audio_data = h ! audio_data \<and> take (length h) h' = h
      \<and> length h \<le> r \<and> r < length h' \<and> apply_equalizer s (h ! audio_data) = Inr (h' ! r)"
    if run: "apply_equalizer_store s h audio_data = Inr (h', r)" for h' r
  proof -
    obtain out where out: "apply_equalizer s (h ! audio_data) = Inr out"
      using apply_equalizer_store_returns [OF run] by blast
    from apply_equalizer_store_inv [OF out] run
    have t: "take (length h) h' = h" and r: "length h \<le> r" "r < length h'" "h' ! r = out"
      by auto
    have "h' ! audio_data = take (length h) h' ! audio_data" using assms(1) by simp
    then have "h' ! audio_data = h ! audio_data" by (simp add: t)
    with t r out show ?thesis by simp
  qed
  have "\<exists>h' r. apply_equalizer_store s h audio_data = Inr (h', r)" if m: "moderate_gains gs"
  proof -
    obtain out where "apply_equalizer s (h ! audio_data) = Inr out"
      using apply_equalizer_reachable [OF assms(2) m] by blast
    from apply_equalizer_store_inv [OF this] show ?thesis by blast
  qed
  with frame show ?thesis by blast
qed

theorem argument_not_mutated_witness:
  "(0::nat) < length [Multi 2 [[1 / 2, - 3], [2, 0]]]
   \<and> set_gains AudioEqualizer_init [(''1 kHz'', 6)]
       = Inr (AudioEqualizer_init\<lparr>gains := (gains AudioEqualizer_init)(''1 kHz'' \<mapsto> 6)\<rparr>)
   \<and> moderate_gains [(''1 kHz'', 6)]
   \<and> (\<exists>h' result.
        apply_equalizer_store
          (AudioEqualizer_init\<lparr>gains := (gains AudioEqualizer_init)(''1 kHz'' \<mapsto> 6)\<rparr>)
          [Multi 2 [[1 / 2, - 3], [2, 0]]] 0 = Inr (h', result)
      \<and> h' ! 0 = Multi 2 [[1 / 2, - 3], [2, 0]]
      \<and> take 1 h' = [Multi 2 [[1 / 2, - 3], [2, 0]]]
      \<and> 1 \<le> result \<and> result < length h'
      \<and> apply_equalizer
          (AudioEqualizer_init\<lparr>gains := (gains AudioEqualizer_init)(''1 kHz'' \<mapsto> 6)\<rparr>)
          (Multi 2 [[1 / 2, - 3], [2, 0]]) = Inr (h' ! result))"
proof -
  have h: "(0::nat) < length [Multi 2 [[1 / 2, - 3], [2, 0]]]" by simp
  have run: "set_gains AudioEqualizer_init [(''1 kHz'', 6)]
       = Inr (AudioEqualizer_init\<lparr>gains := (gains AudioEqualizer_init)(''1 kHz'' \<mapsto> 6)\<rparr>)"
    by (rule set_one_gain) (simp add: band_table_def)
  have m: "moderate_gains [(''1 kHz'', 6)]" by (simp add: moderate_gains_def)
  from argument_not_mutated [OF h run] m h run show ?thesis by auto
qed

end
